theory Spec2Isabelle
  imports Main "HOL-Library.Sublist"
begin

section \<open>Path helpers of \<^verbatim>\<open>src/os.cpp\<close>\<close>

text \<open>
  A \<^verbatim>\<open>Buf\<close> is a byte buffer; it is modelled as a \<^typ>\<open>string\<close> (a list of 8-bit
  characters). The two build configurations of \<^verbatim>\<open>os.cpp\<close> are distinguished by the
  flag \<open>windows\<close> (\<^verbatim>\<open>ZIG_OS_WINDOWS\<close> defined) of every function below.
\<close>

definition backslash :: char where
  "backslash = CHR 0x5C"

text \<open>
  \<^verbatim>\<open>os_is_sep\<close>: on Windows both the backslash and the slash separate path components,
  elsewhere only the slash does.
\<close>

definition os_is_sep :: "bool \<Rightarrow> char \<Rightarrow> bool" where
  "os_is_sep windows c =
     (if windows then c = backslash \<or> c = CHR ''/'' else c = CHR ''/'')"

text \<open>
  The scanning loop of \<^verbatim>\<open>os_path_split\<close>,
  \<^verbatim>\<open>for (size_t i = last_index;;) { if (os_is_sep(p[i])) ...return; if (i == 0) break; i -= 1; }\<close>:
  the index of the separator at which the loop returns, or \<open>None\<close> when it breaks at
  index 0.
\<close>

fun split_scan :: "bool \<Rightarrow> string \<Rightarrow> nat \<Rightarrow> nat option" where
  "split_scan windows p 0 = (if os_is_sep windows (p ! 0) then Some 0 else None)"
| "split_scan windows p (Suc i) =
     (if os_is_sep windows (p ! Suc i) then Some (Suc i) else split_scan windows p i)"

text \<open>
  \<^verbatim>\<open>os_path_split\<close> with both out-parameters given; the result is the pair
  (dirname, basename). \<^verbatim>\<open>buf_init_from_mem(out, ptr, n)\<close> copies \<open>n\<close> bytes.
\<close>

definition os_path_split :: "bool \<Rightarrow> string \<Rightarrow> string \<times> string" where
  "os_path_split windows full_path =
     (let len = length full_path in
      if len \<noteq> 0 then
        (let last_index = len - 1;
             last_char = full_path ! last_index in
         if os_is_sep windows last_char \<and> last_index = 0 then ([last_char], [])
         else
           (let last_index' = (if os_is_sep windows last_char then last_index - 1 else last_index) in
            case split_scan windows full_path last_index' of
              Some i \<Rightarrow>
                (take (if i = 0 then 1 else i) full_path,
                 take (len - (i + 1)) (drop (i + 1) full_path))
            | None \<Rightarrow> (''.'', full_path)))
      else (''.'', full_path))"

text \<open>
  \<^verbatim>\<open>os_path_join\<close>. The constant \<^verbatim>\<open>ZIG_OS_SEP_CHAR\<close> is defined in \<^verbatim>\<open>os.hpp\<close>; it is
  the parameter \<open>sep_char\<close> here.
\<close>

definition os_path_join :: "bool \<Rightarrow> char \<Rightarrow> string \<Rightarrow> string \<Rightarrow> string" where
  "os_path_join windows sep_char dirname basename =
     (if length dirname = 0 then basename
      else
        (let c = dirname ! (length dirname - 1) in
         if \<not> os_is_sep windows c then dirname @ [sep_char] @ basename
         else dirname @ basename))"

text \<open>
  Predicates on paths used to state the round trip: the path contains a separator; two
  separators stand next to each other; the last separator that is not the first
  character of the path, if there is one.
\<close>

definition has_sep :: "bool \<Rightarrow> string \<Rightarrow> bool" where
  "has_sep windows p = list_ex (os_is_sep windows) p"

fun adjacent_seps :: "bool \<Rightarrow> string \<Rightarrow> bool" where
  "adjacent_seps windows (a # b # cs) =
     ((os_is_sep windows a \<and> os_is_sep windows b) \<or> adjacent_seps windows (b # cs))"
| "adjacent_seps windows _ = False"

definition last_sep :: "bool \<Rightarrow> string \<Rightarrow> char option" where
  "last_sep windows p =
     (let seps = filter (os_is_sep windows) p in if seps = [] then None else Some (last seps))"

text \<open>
  \<^verbatim>\<open>os_path_extname\<close> with both out-parameters given: the pair (basename, extname),
  split at the last dot.
\<close>

fun extname_scan :: "string \<Rightarrow> nat \<Rightarrow> nat option" where
  "extname_scan p 0 = (if p ! 0 = CHR ''.'' then Some 0 else None)"
| "extname_scan p (Suc i) = (if p ! Suc i = CHR ''.'' then Some (Suc i) else extname_scan p i)"

definition os_path_extname :: "string \<Rightarrow> string \<times> string" where
  "os_path_extname full_path =
     (if length full_path = 0 then ([], [])
      else
        (case extname_scan full_path (length full_path - 1) of
           Some i \<Rightarrow> (take i full_path, take (length full_path - i) (drop i full_path))
         | None \<Rightarrow> (full_path, [])))"

section \<open>The command-line driver of \<^verbatim>\<open>src/main.cpp\<close>\<close>

datatype Cmd =
  CmdNone | CmdBuild | CmdBuiltin | CmdRun | CmdTargets | CmdTest | CmdTranslateC
| CmdVersion | CmdZen | CmdLibC

datatype EmitFileType = EmitFileTypeBinary | EmitFileTypeAssembly | EmitFileTypeLLVMIr

datatype CacheOpt = CacheOptAuto | CacheOptOn | CacheOptOff

datatype WantPIC = WantPICAuto | WantPICDisabled | WantPICEnabled

datatype OutType = OutTypeUnknown | OutTypeExe | OutTypeLib | OutTypeObj

definition EXIT_SUCCESS :: int where
  "EXIT_SUCCESS = 0"

definition EXIT_FAILURE :: int where
  "EXIT_FAILURE = 1"

text \<open>
  What a run of \<^verbatim>\<open>main\<close> does to the outside, in order: text written to the two
  streams, the usage texts (\<^verbatim>\<open>print_full_usage\<close>, \<^verbatim>\<open>print_libc_usage\<close>, whose long
  bodies are not spelled out), and the calls into the code generator.
\<close>

datatype effect =
  Stderr string
| Stdout string
| Full_usage_stdout
| Full_usage_stderr
| Libc_usage_stdout
| LLVM_parse_command_line "string list"
| Codegen_create "string option"
| Codegen_translate_c string
| Codegen_print_timing_report

text \<open>
  How a run ends: \<^verbatim>\<open>main\<close> returns an exit status; or control passes to a command
  other than \<^verbatim>\<open>translate-c\<close>, whose code is not followed any further; or an external
  callee ends the process itself; or an assertion fails.
\<close>

datatype outcome =
  Exit "effect list" int
| Other_command "effect list" string
| Ended_in_callee "effect list" string
| Assertion_failed "effect list"

fun effects :: "outcome \<Rightarrow> effect list" where
  "effects (Exit es _) = es"
| "effects (Other_command es _) = es"
| "effects (Ended_in_callee es _) = es"
| "effects (Assertion_failed es) = es"

fun is_translation_effect :: "effect \<Rightarrow> bool" where
  "is_translation_effect (Codegen_create _) = True"
| "is_translation_effect (Codegen_translate_c _) = True"
| "is_translation_effect _ = False"

text \<open>
  The local variables of \<^verbatim>\<open>main\<close> that decide its control flow on the way to the
  \<^verbatim>\<open>translate-c\<close> branch. The tree of \<^verbatim>\<open>CliPkg\<close> is kept as \<open>cur_pkg\<close> and the chain
  \<open>pkg_parents\<close> of its ancestors, nearest first (\<^verbatim>\<open>cur_pkg->parent == nullptr\<close> is the
  empty chain); an ancestor of the chain holds the children it had before the one that
  is open, which joins them when \<^verbatim>\<open>--pkg-end\<close> returns to the parent. The tree is read
  only after the loop, with every package closed, where this is the tree of the code.
  \<open>c_source_files\<close> keeps the source paths. Variables that are only stored for the code generator (\<^verbatim>\<open>strip\<close>,
  \<^verbatim>\<open>verbose_*\<close>, \<^verbatim>\<open>build_mode\<close>, ...) are left out.
\<close>

datatype CliPkg = CliPkg (pkg_name: string) (pkg_path: string) (children: "CliPkg list")

record main_vars =
  cmd :: Cmd
  emit_file_type :: EmitFileType
  in_file :: "string option"
  output_dir :: "string option"
  out_type :: OutType
  out_name :: "string option"
  enable_cache :: CacheOpt
  libc_txt :: "string option"
  have_libc :: bool
  target_string :: "string option"
  target_glibc :: "string option"
  objects :: "string list"
  c_source_files :: "string list"
  timing_info :: bool
  cache_dir :: "string option"
  cur_pkg :: CliPkg
  pkg_parents :: "CliPkg list"
  want_pic :: WantPIC
  llvm_argv :: "string list"
  mmacosx_version_min :: "string option"
  mios_version_min :: "string option"

definition initial_vars :: main_vars where
  "initial_vars =
     \<lparr> cmd = CmdNone, emit_file_type = EmitFileTypeBinary, in_file = None, output_dir = None,
       out_type = OutTypeUnknown, out_name = None, enable_cache = CacheOptAuto, libc_txt = None,
       have_libc = False, target_string = None, target_glibc = None, objects = [],
       c_source_files = [], timing_info = False, cache_dir = None,
       cur_pkg = CliPkg [] [] [], pkg_parents = [],
       want_pic = WantPICAuto, llvm_argv = [''zig (LLVM option parsing)''],
       mmacosx_version_min = None, mios_version_min = None \<rparr>"

text \<open>
  Results of the functions \<^verbatim>\<open>main\<close> calls whose code is outside \<^verbatim>\<open>main.cpp\<close>, and
  the build configuration, as parameters of the model. A package table is the list of
  its names, each with the path that \<^verbatim>\<open>add_package\<close> prints for it
  (\<^verbatim>\<open>os_path_join\<close> of the package's \<^verbatim>\<open>root_src_dir\<close> and \<^verbatim>\<open>root_src_path\<close>):
  \<open>main_pkg_table\<close> is the table of \<^verbatim>\<open>g->main_pkg\<close> as \<^verbatim>\<open>codegen_create\<close> leaves it,
  \<open>created_pkg_table\<close> and \<open>created_pkg_path\<close> are the table and the printed path of the
  package that \<^verbatim>\<open>codegen_create_package\<close> returns for a directory and a file name. The
  setters of the code generator between \<^verbatim>\<open>codegen_create\<close> and \<^verbatim>\<open>add_package\<close> are taken
  to return.
\<close>

datatype target_parse =
  Target_ok
| Target_needs_subarch string "string list"
| Target_invalid string

record environment =
  mem_profile :: bool
  is_windows :: bool
  target_parse_triple :: "string \<Rightarrow> target_parse"
  target_is_glibc :: "string \<Rightarrow> bool"
  target_parse_glibc_version :: "string \<Rightarrow> string option"
  target_requires_pic :: "string option \<Rightarrow> bool \<Rightarrow> bool"
  target_triple_zig :: "string option \<Rightarrow> string"
  llvm_parse_returns :: "string list \<Rightarrow> bool"
  zig_libc_parse :: "string \<Rightarrow> string option"
  codegen_translate_c_returns :: "string \<Rightarrow> bool"
  main_pkg_table :: "(string \<times> string) list"
  created_pkg_table :: "string \<Rightarrow> string \<Rightarrow> (string \<times> string) list"
  created_pkg_path :: "string \<Rightarrow> string \<Rightarrow> string"

definition quote :: "string \<Rightarrow> string" where
  \<comment> \<open>the format \<^verbatim>\<open>'%s'\<close>\<close>
  "quote s = [CHR 0x27] @ s @ [CHR 0x27]"

definition print_error_usage :: "string \<Rightarrow> effect list \<Rightarrow> outcome" where
  "print_error_usage arg0 es =
     Exit (es @ [Stderr (''See `'' @ arg0 @ '' --help` for detailed usage information\<newline>'')])
       EXIT_FAILURE"

subsection \<open>The argument loop\<close>

text \<open>
  One iteration of \<^verbatim>\<open>for (int i = 1; i < argc; i += 1)\<close> on \<open>arg = argv[i]\<close>, with
  \<open>rest\<close> the arguments after it: the iteration returns from \<^verbatim>\<open>main\<close>, breaks out of
  the loop, or goes on after consuming \<open>n\<close> further arguments.
\<close>

datatype arg_result =
  Return outcome
| Break main_vars
| Continue "effect list" main_vars nat

definition has_short_prefix :: "char \<Rightarrow> string \<Rightarrow> bool" where
  \<comment> \<open>\<^verbatim>\<open>arg[1] == c && arg[2] != 0\<close>\<close>
  "has_short_prefix c arg \<longleftrightarrow> 2 < length arg \<and> arg ! 1 = c"

definition starts_with_dash :: "string \<Rightarrow> bool" where
  \<comment> \<open>\<^verbatim>\<open>arg[0] == '-'\<close>; the empty string starts with its terminator\<close>
  "starts_with_dash arg \<longleftrightarrow> (case arg of [] \<Rightarrow> False | c # _ \<Rightarrow> c = CHR ''-'')"

definition stored_flags_1 :: "string list" where
  "stored_flags_1 = [''--release-fast'', ''--release-safe'', ''--release-small'']"

definition stored_flags_2 :: "string list" where
  "stored_flags_2 =
     [''--strip'', ''-dynamic'', ''--verbose-tokenize'', ''--verbose-ast'', ''--verbose-link'',
      ''--verbose-ir'', ''--verbose-llvm-ir'', ''--verbose-cimport'', ''--verbose-cc'',
      ''-rdynamic'', ''--each-lib-rpath'']"

definition stored_flags_3 :: "string list" where
  "stored_flags_3 =
     [''-fdump-analysis'', ''-femit-docs'', ''-fno-emit-bin'', ''--enable-valgrind'',
      ''--disable-valgrind'']"

definition stored_flags_4 :: "string list" where
  "stored_flags_4 =
     [''-fstack-check'', ''-fno-stack-check'', ''-fsanitize-c'', ''-fno-sanitize-c'',
      ''--system-linker-hack'', ''--single-threaded'', ''--disable-gen-h'',
      ''--bundle-compiler-rt'', ''--test-cmd-bin'']"

text \<open>
  The inner loop of \<^verbatim>\<open>--c-source\<close> over \<open>argv[i..]\<close>: arguments starting with a dash
  are compiler flags of the C file, the first other argument is its path. The result is
  the path, if one was found, and the number of arguments the loop advanced \<open>i\<close> by.
\<close>

fun c_source_scan :: "string list \<Rightarrow> string option \<times> nat" where
  "c_source_scan [] = (None, 0)"
| "c_source_scan (a # as) =
     (if starts_with_dash a then
        (if as \<noteq> [] then (case c_source_scan as of (p, n) \<Rightarrow> (p, Suc n)) else (None, 1))
      else (Some a, 0))"

definition subsystem_names :: "string list" where
  "subsystem_names =
     [''console'', ''windows'', ''posix'', ''native'', ''efi_application'',
      ''efi_boot_service_driver'', ''efi_rom'', ''efi_runtime_driver'']"

definition stored_options_1 :: "string list" where
  "stored_options_1 =
     [''--dynamic-linker'']"

definition stored_options_2 :: "string list" where
  "stored_options_2 = [''-D'', ''-isystem'', ''-I'', ''-dirafter'']"

definition stored_options_3 :: "string list" where
  "stored_options_3 =
     [''--override-lib-dir'', ''--main-pkg-path'', ''--library-path'', ''-L'', ''-F'']"

definition stored_options_4 :: "string list" where
  "stored_options_4 =
     [''-framework'', ''--linker-script'', ''--version-script'']"

definition stored_options_5 :: "string list" where
  "stored_options_5 =
     [''-rpath'', ''--test-filter'', ''--test-name-prefix'', ''--ver-major'', ''--ver-minor'',
      ''--ver-patch'', ''--test-cmd'']"

text \<open>
  The options that take the next argument \<open>a = argv[i]\<close> (after \<^verbatim>\<open>i += 1\<close>); \<open>others\<close>
  are the arguments after \<open>a\<close>.
\<close>

definition parse_option_with_arg ::
  "string \<Rightarrow> main_vars \<Rightarrow> string \<Rightarrow> string \<Rightarrow> string list \<Rightarrow> arg_result" where
  "parse_option_with_arg arg0 v arg a others =
     (if arg = ''--output-dir'' then Continue [] (v\<lparr>output_dir := Some a\<rparr>) 1
      else if arg = ''--color'' then
        (if a = ''auto'' \<or> a = ''on'' \<or> a = ''off'' then Continue [] v 1
         else Return (print_error_usage arg0
                [Stderr ''--color options are 'auto', 'on', or 'off'\<newline>'']))
      else if arg = ''--cache'' then
        (if a = ''auto'' then Continue [] (v\<lparr>enable_cache := CacheOptAuto\<rparr>) 1
         else if a = ''on'' then Continue [] (v\<lparr>enable_cache := CacheOptOn\<rparr>) 1
         else if a = ''off'' then Continue [] (v\<lparr>enable_cache := CacheOptOff\<rparr>) 1
         else Return (print_error_usage arg0
                [Stderr ''--cache options are 'auto', 'on', or 'off'\<newline>'']))
      else if arg = ''--emit'' then
        (if a = ''asm'' then Continue [] (v\<lparr>emit_file_type := EmitFileTypeAssembly\<rparr>) 1
         else if a = ''bin'' then Continue [] (v\<lparr>emit_file_type := EmitFileTypeBinary\<rparr>) 1
         else if a = ''llvm-ir'' then Continue [] (v\<lparr>emit_file_type := EmitFileTypeLLVMIr\<rparr>) 1
         else Return (print_error_usage arg0
                [Stderr ''--emit options are 'asm', 'bin', or 'llvm-ir'\<newline>'']))
      else if arg = ''--name'' then Continue [] (v\<lparr>out_name := Some a\<rparr>) 1
      else if arg \<in> set stored_options_1 then Continue [] v 1
      else if arg = ''--libc'' then Continue [] (v\<lparr>libc_txt := Some a\<rparr>) 1
      else if arg \<in> set stored_options_2 then Continue [] v 1
      else if arg = ''-mllvm'' then Continue [] (v\<lparr>llvm_argv := llvm_argv v @ [a]\<rparr>) 1
      else if arg \<in> set stored_options_3 then Continue [] v 1
      else if arg = ''--library'' \<or> arg = ''-l'' then
        Continue [] (if a = ''c'' then v\<lparr>have_libc := True\<rparr> else v) 1
      else if arg = ''--forbid-library'' then Continue [] v 1
      else if arg = ''--object'' then Continue [] (v\<lparr>objects := objects v @ [a]\<rparr>) 1
      else if arg = ''--c-source'' then
        (case c_source_scan (a # others) of
           (Some p, n) \<Rightarrow> Continue [] (v\<lparr>c_source_files := c_source_files v @ [p]\<rparr>) (Suc n)
         | (None, n) \<Rightarrow> Continue [] v (Suc n))
      else if arg = ''--cache-dir'' then Continue [] (v\<lparr>cache_dir := Some a\<rparr>) 1
      else if arg = ''-target'' then Continue [] (v\<lparr>target_string := Some a\<rparr>) 1
      else if arg = ''-mmacosx-version-min'' then Continue [] (v\<lparr>mmacosx_version_min := Some a\<rparr>) 1
      else if arg = ''-mios-version-min'' then Continue [] (v\<lparr>mios_version_min := Some a\<rparr>) 1
      else if arg \<in> set stored_options_4 then Continue [] v 1
      else if arg = ''-target-glibc'' then Continue [] (v\<lparr>target_glibc := Some a\<rparr>) 1
      else if arg \<in> set stored_options_5 then Continue [] v 1
      else if arg = ''--subsystem'' then
        (if a \<in> set subsystem_names then Continue [] v 1
         else Return (Exit
                [Stderr (''invalid: --subsystem '' @ a @ ''\<newline>'' @
                   ''Options are:\<newline>'' @
                   ''  console\<newline>'' @
                   ''  windows\<newline>'' @
                   ''  posix\<newline>'' @
                   ''  native\<newline>'' @
                   ''  efi_application\<newline>'' @
                   ''  efi_boot_service_driver\<newline>'' @
                   ''  efi_rom\<newline>'' @
                   ''  efi_runtime_driver\<newline>'')]
                EXIT_FAILURE))
      else Return (print_error_usage arg0 [Stderr (''Invalid argument: '' @ arg @ ''\<newline>'')]))"

text \<open>The branch \<^verbatim>\<open>arg[0] == '-'\<close> of the loop body.\<close>

definition parse_dash_arg ::
  "environment \<Rightarrow> string \<Rightarrow> main_vars \<Rightarrow> string \<Rightarrow> string list \<Rightarrow> arg_result" where
  "parse_dash_arg env arg0 v arg rest =
     (if arg = ''--'' then
        (if cmd v = CmdRun then Break v
         else Continue [Stderr (''Unexpected end-of-parameter mark: '' @ arg @ ''\<newline>'')] v 0)
      else if arg \<in> set stored_flags_1 then Continue [] v 0
      else if arg = ''--help'' then
        (if cmd v = CmdLibC then Return (Exit [Libc_usage_stdout] EXIT_SUCCESS)
         else Return (Exit [Full_usage_stdout] EXIT_SUCCESS))
      else if arg \<in> set stored_flags_2 then Continue [] v 0
      else if arg = ''-ftime-report'' then Continue [] (v\<lparr>timing_info := True\<rparr>) 0
      else if arg = ''-fstack-report'' then Continue [] v 0
      else if arg = ''-fmem-report'' then
        (if mem_profile env then Continue [] v 0
         else Return (print_error_usage arg0
                [Stderr ''-fmem-report requires configuring with -DZIG_ENABLE_MEM_PROFILE=ON\<newline>'']))
      else if arg \<in> set stored_flags_3 then Continue [] v 0
      else if arg = ''-fPIC'' then Continue [] (v\<lparr>want_pic := WantPICEnabled\<rparr>) 0
      else if arg = ''-fno-PIC'' then Continue [] (v\<lparr>want_pic := WantPICDisabled\<rparr>) 0
      else if arg \<in> set stored_flags_4 then Continue [] v 0
      else if has_short_prefix (CHR ''D'') arg then Continue [] v 0
      else if has_short_prefix (CHR ''L'') arg then Continue [] v 0
      else if has_short_prefix (CHR ''l'') arg then
        Continue [] (if drop 2 arg = ''c'' then v\<lparr>have_libc := True\<rparr> else v) 0
      else if has_short_prefix (CHR ''I'') arg then Continue [] v 0
      else if has_short_prefix (CHR ''F'') arg then Continue [] v 0
      else if arg = ''--pkg-begin'' then
        (if length rest < 2 then
           Return (print_error_usage arg0 [Stderr ''Expected 2 arguments after --pkg-begin\<newline>''])
         else
           Continue []
             (v\<lparr>cur_pkg := CliPkg (rest ! 0) (rest ! 1) [], pkg_parents := cur_pkg v # pkg_parents v\<rparr>)
             2)
      else if arg = ''--pkg-end'' then
        (case pkg_parents v of
           [] \<Rightarrow>
             Return (Exit [Stderr ''Encountered --pkg-end with no matching --pkg-begin\<newline>'']
                       EXIT_FAILURE)
         | parent # ancestors \<Rightarrow>
             Continue []
               (v\<lparr>cur_pkg := CliPkg (pkg_name parent) (pkg_path parent)
                              (children parent @ [cur_pkg v]),
                  pkg_parents := ancestors\<rparr>)
               0)
      else if arg = ''-ffunction-sections'' then Continue [] v 0
      else
        (case rest of
           [] \<Rightarrow> Return (print_error_usage arg0
                   [Stderr (''Expected another argument after '' @ arg @ ''\<newline>'')])
         | a # others \<Rightarrow> parse_option_with_arg arg0 v arg a others))"

text \<open>The branch \<^verbatim>\<open>cmd == CmdNone\<close>: the argument names the command.\<close>

definition parse_command :: "string \<Rightarrow> main_vars \<Rightarrow> string \<Rightarrow> arg_result" where
  "parse_command arg0 v arg =
     (if arg = ''build-exe'' then Continue [] (v\<lparr>cmd := CmdBuild, out_type := OutTypeExe\<rparr>) 0
      else if arg = ''build-obj'' then Continue [] (v\<lparr>cmd := CmdBuild, out_type := OutTypeObj\<rparr>) 0
      else if arg = ''build-lib'' then Continue [] (v\<lparr>cmd := CmdBuild, out_type := OutTypeLib\<rparr>) 0
      else if arg = ''run'' then Continue [] (v\<lparr>cmd := CmdRun, out_type := OutTypeExe\<rparr>) 0
      else if arg = ''version'' then Continue [] (v\<lparr>cmd := CmdVersion\<rparr>) 0
      else if arg = ''zen'' then Continue [] (v\<lparr>cmd := CmdZen\<rparr>) 0
      else if arg = ''libc'' then Continue [] (v\<lparr>cmd := CmdLibC\<rparr>) 0
      else if arg = ''translate-c'' then Continue [] (v\<lparr>cmd := CmdTranslateC\<rparr>) 0
      else if arg = ''test'' then Continue [] (v\<lparr>cmd := CmdTest, out_type := OutTypeExe\<rparr>) 0
      else if arg = ''targets'' then Continue [] (v\<lparr>cmd := CmdTargets\<rparr>) 0
      else if arg = ''builtin'' then Continue [] (v\<lparr>cmd := CmdBuiltin\<rparr>) 0
      else Return (print_error_usage arg0 [Stderr (''Unrecognized command: '' @ arg @ ''\<newline>'')]))"

text \<open>The last branch: a positional argument after the command.\<close>

definition parse_positional :: "string \<Rightarrow> main_vars \<Rightarrow> string \<Rightarrow> arg_result" where
  "parse_positional arg0 v arg =
     (if cmd v \<in> {CmdBuild, CmdRun, CmdTranslateC, CmdTest, CmdLibC} then
        (if in_file v = None then Continue [] (v\<lparr>in_file := Some arg\<rparr>) 0
         else Return (print_error_usage arg0
                [Stderr (''Unexpected extra parameter: '' @ arg @ ''\<newline>'')]))
      else if cmd v \<in> {CmdBuiltin, CmdVersion, CmdZen, CmdTargets} then
        Return (print_error_usage arg0 [Stderr (''Unexpected extra parameter: '' @ arg @ ''\<newline>'')])
      else Return (Assertion_failed []))"

definition parse_arg ::
  "environment \<Rightarrow> string \<Rightarrow> main_vars \<Rightarrow> string \<Rightarrow> string list \<Rightarrow> arg_result" where
  "parse_arg env arg0 v arg rest =
     (if starts_with_dash arg then parse_dash_arg env arg0 v arg rest
      else if cmd v = CmdNone then parse_command arg0 v arg
      else parse_positional arg0 v arg)"

fun prepend_effects :: "effect list \<Rightarrow> outcome \<Rightarrow> outcome" where
  "prepend_effects es (Exit es' c) = Exit (es @ es') c"
| "prepend_effects es (Other_command es' n) = Other_command (es @ es') n"
| "prepend_effects es (Ended_in_callee es' n) = Ended_in_callee (es @ es') n"
| "prepend_effects es (Assertion_failed es') = Assertion_failed (es @ es')"

text \<open>
  The whole loop over \<open>argv[1..]\<close>: either \<^verbatim>\<open>main\<close> returns from inside it, or it ends
  with the effects so far and the variables as the rest of \<^verbatim>\<open>main\<close> sees them.
\<close>

function parse_args ::
  "environment \<Rightarrow> string \<Rightarrow> effect list \<Rightarrow> main_vars \<Rightarrow> string list \<Rightarrow>
     outcome + effect list \<times> main_vars" where
  "parse_args env arg0 es v [] = Inr (es, v)"
| "parse_args env arg0 es v (arg # rest) =
     (case parse_arg env arg0 v arg rest of
        Return out \<Rightarrow> Inl (prepend_effects es out)
      | Break v' \<Rightarrow> Inr (es, v')
      | Continue es' v' n \<Rightarrow> parse_args env arg0 (es @ es') v' (drop n rest))"
  by pat_completeness auto
termination
  by (relation "measure (\<lambda>(env, arg0, es, v, args). length args)") auto

subsection \<open>After the loop\<close>

text \<open>
  The checks between the loop and \<^verbatim>\<open>switch (cmd)\<close>: \<open>Some\<close> outcome when one of them
  returns, \<open>None\<close> with the effects so far when all pass.
\<close>

definition check_target :: "environment \<Rightarrow> string \<Rightarrow> main_vars \<Rightarrow> outcome option" where
  "check_target env arg0 v =
     (case target_string v of
        None \<Rightarrow>
          (if target_glibc v \<noteq> None then
             Some (print_error_usage arg0
               [Stderr ''-target-glibc provided but no -target parameter\<newline>''])
           else None)
      | Some t \<Rightarrow>
          (case target_parse_triple env t of
             Target_needs_subarch arch_name subs \<Rightarrow>
               Some (print_error_usage arg0
                 (Stderr (quote arch_name @ '' requires a sub-architecture. Try one of these:\<newline>'')
                  # map (\<lambda>s. Stderr (''  '' @ arch_name @ s @ ''\<newline>'')) subs))
           | Target_invalid msg \<Rightarrow>
               Some (print_error_usage arg0 [Stderr (''invalid target: '' @ msg @ ''\<newline>'')])
           | Target_ok \<Rightarrow>
               (if target_is_glibc env t then
                  (case target_glibc v of
                     Some g \<Rightarrow>
                       (case target_parse_glibc_version env g of
                          Some msg \<Rightarrow>
                            Some (print_error_usage arg0
                              [Stderr (''invalid glibc version '' @ quote g @ '': '' @ msg @ ''\<newline>'')])
                        | None \<Rightarrow> None)
                   | None \<Rightarrow> None)
                else if target_glibc v \<noteq> None then
                  Some (print_error_usage arg0
                    [Stderr (quote t @ '' is not a glibc-compatible target'')])
                else None)))"

definition check_options :: "environment \<Rightarrow> string \<Rightarrow> main_vars \<Rightarrow> outcome + effect list" where
  "check_options env arg0 v =
     (if pkg_parents v \<noteq> [] then Inl (Exit [Stderr ''Unmatched --pkg-begin\<newline>''] EXIT_FAILURE)
      else
        (case check_target env arg0 v of
           Some out \<Rightarrow> Inl out
         | None \<Rightarrow>
             (if output_dir v \<noteq> None \<and> enable_cache v = CacheOptOn then
                Inl (print_error_usage arg0
                  [Stderr ''`--output-dir` is incompatible with --cache on.\<newline>''])
              else if target_requires_pic env (target_string v) (have_libc v) \<and>
                      want_pic v = WantPICDisabled then
                Inl (print_error_usage arg0
                  [Stderr (''`--disable-pic` is incompatible with target '' @
                     quote (target_triple_zig env (target_string v)) @ ''\<newline>'')])
              else if emit_file_type v \<noteq> EmitFileTypeBinary \<and> in_file v = None then
                Inl (print_error_usage arg0
                  [Stderr ''A root source file is required when using `--emit asm` or `--emit llvm-ir`\<newline>''])
              else if 1 < length (llvm_argv v) then
                (if llvm_parse_returns env (llvm_argv v) then
                   Inr [LLVM_parse_command_line (llvm_argv v)]
                 else Inl (Ended_in_callee [LLVM_parse_command_line (llvm_argv v)]
                        ''ZigLLVMParseCommandLineOptions''))
              else Inr [])))"

text \<open>
  The name the output gets when \<^verbatim>\<open>--name\<close> is not given: the base name of the path
  without its extension.
\<close>

definition infer_name :: "environment \<Rightarrow> string \<Rightarrow> string" where
  "infer_name env path = fst (os_path_extname (snd (os_path_split (is_windows env) path)))"

text \<open>
  The case \<^verbatim>\<open>CmdRun, CmdBuild, CmdTranslateC, CmdTest\<close> of \<^verbatim>\<open>switch (cmd)\<close>, in the
  order of the source; \<open>es\<close> are the effects so far.

  First the value of \<^verbatim>\<open>buf_out_name\<close> when it is tested against \<^verbatim>\<open>nullptr\<close>.
\<close>

definition output_name :: "environment \<Rightarrow> main_vars \<Rightarrow> string option" where
  "output_name env v =
     (let need_name = (cmd v = CmdBuild \<or> cmd v = CmdTranslateC);
          out_name1 = (if cmd v = CmdRun then Some ''run'' else out_name v);
          buf_out_name1 = (if cmd v = CmdTest then Some ''test'' else out_name1);
          buf_out_name2 =
            (case in_file v of
               Some f \<Rightarrow>
                 (if need_name \<and> buf_out_name1 = None then Some (infer_name env f)
                  else buf_out_name1)
             | None \<Rightarrow> buf_out_name1)
      in
        if need_name \<and> buf_out_name2 = None \<and> length (c_source_files v) = 1 then
          Some (infer_name env (c_source_files v ! 0))
        else buf_out_name2)"

text \<open>
  The branch \<^verbatim>\<open>cmd == CmdTranslateC\<close> after \<^verbatim>\<open>codegen_create\<close>:
  \<^verbatim>\<open>codegen_translate_c(g, in_file_buf, stdout)\<close>, the optional timing report, and
  \<^verbatim>\<open>return main_exit(root_progress_node, EXIT_SUCCESS)\<close>. The callee returns nothing to
  \<^verbatim>\<open>main\<close>; whether it returns at all is the environment's.
\<close>

definition translate_c_command :: "environment \<Rightarrow> effect list \<Rightarrow> main_vars \<Rightarrow> outcome" where
  "translate_c_command env es v =
     (case in_file v of
        None \<Rightarrow> Assertion_failed es
      | Some f \<Rightarrow>
          (if codegen_translate_c_returns env f then
             Exit (es @ [Codegen_translate_c f] @
                   (if timing_info v then [Codegen_print_timing_report] else []))
               EXIT_SUCCESS
           else Ended_in_callee (es @ [Codegen_translate_c f]) ''codegen_translate_c''))"

text \<open>
  \<^verbatim>\<open>add_package(g, cli_pkg, pkg)\<close> on the children of \<open>cli_pkg\<close> and the table of \<open>pkg\<close>:
  the message of the \<^verbatim>\<open>exit(EXIT_FAILURE)\<close> when a child's name is in the table
  already, \<open>None\<close> when the function returns. A child enters the table, then its own
  children are added to its package, then the next child follows.
\<close>

fun add_package ::
  "environment \<Rightarrow> (string \<times> string) list \<Rightarrow> CliPkg list \<Rightarrow> string option" where
  "add_package env table [] = None"
| "add_package env table (CliPkg name path cs # rest) =
     (case os_path_split (is_windows env) path of
        (dirname, basename) \<Rightarrow>
          (case map_of table name of
             Some full_path \<Rightarrow>
               Some (''Unable to add package '' @ quote name @ ''->'' @ quote path @
                       '': already exists as '' @ quote full_path @ ''\<newline>'')
           | None \<Rightarrow>
               (case add_package env (created_pkg_table env dirname basename) cs of
                  Some msg \<Rightarrow> Some msg
                | None \<Rightarrow>
                    add_package env ((name, created_pkg_path env dirname basename) # table) rest)))"

text \<open>From the \<^verbatim>\<open>--libc\<close> file to the branch on the command.\<close>

definition create_and_run :: "environment \<Rightarrow> effect list \<Rightarrow> main_vars \<Rightarrow> outcome" where
  "create_and_run env es v =
     (let zig_root_source_file = (if cmd v = CmdTranslateC then None else in_file v);
          libc_error = (case libc_txt v of None \<Rightarrow> None | Some l \<Rightarrow> zig_libc_parse env l)
      in
        case libc_error of
          Some msg \<Rightarrow>
            Exit (es @ [Stderr (''Unable to parse --libc text file: '' @ msg @ ''\<newline>'')])
              EXIT_FAILURE
        | None \<Rightarrow>
            (let es1 = es @ [Codegen_create zig_root_source_file] in
             if mmacosx_version_min v \<noteq> None \<and> mios_version_min v \<noteq> None then
               Exit (es1 @ [Stderr (''-mmacosx-version-min and -mios-version-min options '' @
                                      ''not allowed together\<newline>'')])
                 EXIT_FAILURE
             else
               (case add_package env (main_pkg_table env) (children (cur_pkg v)) of
                  Some msg \<Rightarrow> Exit (es1 @ [Stderr msg]) EXIT_FAILURE
                | None \<Rightarrow>
                    (if cmd v = CmdBuild \<or> cmd v = CmdRun then Other_command es1 ''build or run''
                     else if cmd v = CmdTranslateC then translate_c_command env es1 v
                     else if cmd v = CmdTest then Other_command es1 ''test''
                     else Assertion_failed es1))))"

definition build_like_command ::
  "environment \<Rightarrow> string \<Rightarrow> effect list \<Rightarrow> main_vars \<Rightarrow> outcome" where
  "build_like_command env arg0 es v =
     (if cmd v = CmdBuild \<and> in_file v = None \<and> objects v = [] \<and> c_source_files v = [] then
        print_error_usage arg0
          (es @ [Stderr (''Expected at least one of these things:\<newline>'' @
                   '' * Zig root source file argument\<newline>'' @
                   '' * --object argument\<newline>'' @
                   '' * --c-source argument\<newline>'')])
      else if (cmd v = CmdTranslateC \<or> cmd v = CmdTest \<or> cmd v = CmdRun) \<and> in_file v = None then
        print_error_usage arg0 (es @ [Stderr ''Expected source file argument.\<newline>''])
      else if cmd v = CmdRun \<and> emit_file_type v \<noteq> EmitFileTypeBinary then
        print_error_usage arg0 (es @ [Stderr ''Cannot run non-executable file.\<newline>''])
      else if \<not> (cmd v \<noteq> CmdBuild \<or> out_type v \<noteq> OutTypeUnknown) then Assertion_failed es
      else if (cmd v = CmdBuild \<or> cmd v = CmdTranslateC) \<and> output_name env v = None then
        print_error_usage arg0
          (es @ [Stderr ''--name [name] not provided and unable to infer\<newline>\<newline>''])
      else create_and_run env es v)"

text \<open>\<^verbatim>\<open>switch (cmd)\<close>.\<close>

definition run_command :: "environment \<Rightarrow> string \<Rightarrow> effect list \<Rightarrow> main_vars \<Rightarrow> outcome" where
  "run_command env arg0 es v =
     (case cmd v of
        CmdLibC \<Rightarrow> Other_command es ''libc''
      | CmdBuiltin \<Rightarrow> Other_command es ''builtin''
      | CmdRun \<Rightarrow> build_like_command env arg0 es v
      | CmdBuild \<Rightarrow> build_like_command env arg0 es v
      | CmdTranslateC \<Rightarrow> build_like_command env arg0 es v
      | CmdTest \<Rightarrow> build_like_command env arg0 es v
      | CmdVersion \<Rightarrow> Other_command es ''version''
      | CmdZen \<Rightarrow> Other_command es ''zen''
      | CmdTargets \<Rightarrow> Other_command es ''targets''
      | CmdNone \<Rightarrow> Exit (es @ [Full_usage_stderr]) EXIT_FAILURE)"

text \<open>
  The commands \<^verbatim>\<open>main\<close> recognises from \<open>argv[1]\<close> before the argument loop; they
  never reach the loop.
\<close>

definition early_command :: "string list \<Rightarrow> string option" where
  "early_command argv =
     (let argc = length argv in
      if argc = 2 \<and> argv ! 1 = ''BUILD_INFO'' then Some ''BUILD_INFO''
      else if 2 \<le> argc \<and> (argv ! 1 = ''cc'' \<or> argv ! 1 = ''-cc1'' \<or> argv ! 1 = ''-cc1as'') then
        Some ''cc''
      else if argc = 2 \<and> argv ! 1 = ''id'' then Some ''id''
      else if 2 \<le> argc \<and> (argv ! 1 = ''init-exe'' \<or> argv ! 1 = ''init-lib'') then Some ''init''
      else if 2 \<le> argc \<and> argv ! 1 = ''build'' then Some ''build''
      else if 2 \<le> argc \<and> argv ! 1 = ''fmt'' then Some ''fmt''
      else None)"

text \<open>\<^verbatim>\<open>main\<close>, for \<open>argv = arg0 # args\<close>.\<close>

definition main :: "environment \<Rightarrow> string \<Rightarrow> string list \<Rightarrow> outcome" where
  "main env arg0 args =
     (case early_command (arg0 # args) of
        Some name \<Rightarrow> Other_command [] name
      | None \<Rightarrow>
          (case parse_args env arg0 [] initial_vars args of
             Inl out \<Rightarrow> out
           | Inr (es, v) \<Rightarrow>
               (case check_options env arg0 v of
                  Inl out \<Rightarrow> prepend_effects es out
                | Inr es' \<Rightarrow> run_command env arg0 (es @ es') v)))"


subsection \<open>Predicates on outcomes\<close>

text \<open>
  An outcome is quiet when no call into the translation machinery is among its effects;
  it is refused when it is quiet and the process ends with \<^verbatim>\<open>EXIT_FAILURE\<close> or inside
  LLVM's option parser.
\<close>

definition quiet :: "outcome \<Rightarrow> bool" where
  "quiet out \<longleftrightarrow> (\<forall>e\<in>set (effects out). \<not> is_translation_effect e)"

fun quiet_result :: "arg_result \<Rightarrow> bool" where
  "quiet_result (Return out) = quiet out"
| "quiet_result (Break v) = True"
| "quiet_result (Continue es v n) = (\<forall>e\<in>set es. \<not> is_translation_effect e)"

text \<open>An example environment: a native glibc target, every external call succeeding.\<close>

definition native_env :: environment where
  "native_env =
     \<lparr> mem_profile = False, is_windows = False, target_parse_triple = (\<lambda>_. Target_ok),
       target_is_glibc = (\<lambda>_. True), target_parse_glibc_version = (\<lambda>_. None),
       target_requires_pic = (\<lambda>_ libc. libc), target_triple_zig = (\<lambda>_. ''x86_64-linux-gnu''),
       llvm_parse_returns = (\<lambda>_. True), zig_libc_parse = (\<lambda>_. None),
       codegen_translate_c_returns = (\<lambda>_. True),
       main_pkg_table = [(''std'', ''/lib/zig/std/std.zig'')],
       created_pkg_table = (\<lambda>_ _. [(''std'', ''/lib/zig/std/std.zig'')]),
       created_pkg_path = (\<lambda>dirname basename. os_path_join False (CHR ''/'') dirname basename) \<rparr>"

fun exits_with_failure :: "outcome \<Rightarrow> bool" where
  "exits_with_failure (Exit es c) = (c = EXIT_FAILURE)"
| "exits_with_failure _ = False"

fun ends_in_llvm :: "outcome \<Rightarrow> bool" where
  "ends_in_llvm (Ended_in_callee es n) = (n = ''ZigLLVMParseCommandLineOptions'')"
| "ends_in_llvm _ = False"

definition refused :: "outcome \<Rightarrow> bool" where
  "refused out \<longleftrightarrow> quiet out \<and> (exits_with_failure out \<or> ends_in_llvm out)"

section \<open>The translation engine behind \<^verbatim>\<open>parse_h_file\<close>\<close>

text \<open>
  \<^verbatim>\<open>src/translate_c.hpp\<close> declares the engine's entry point and \<^verbatim>\<open>src/zig_clang.h\<close>
  the front end it reads; the engine's body is described by the specification only.
  The data model and the components below follow the specification's sections 3, 4
  and 6. Left out, because no property stated here depends on them: the symbol table
  and the counter for anonymous names, type qualifiers, bit-fields, initializer lists
  and source locations.
\<close>

subsection \<open>The front end's AST\<close>

text \<open>
  Canonical-declaration identities, as \<^verbatim>\<open>ZigClangRecordDecl_getCanonicalDecl\<close> and its
  siblings return them: all declarations of one entity have the same identity.
\<close>

type_synonym decl_id = nat

text \<open>The arithmetic members of \<^verbatim>\<open>enum ZigClangBuiltinTypeKind\<close>, and \<open>void\<close>.\<close>

datatype builtin =
  BVoid | BBool | BChar | BSChar | BUChar | BShort | BUShort | BInt | BUInt
| BLong | BULong | BLongLong | BULongLong | BFloat | BDouble | BLongDouble

text \<open>
  C types. A value of this type is the type's canonical identity: a typedef is a type
  of its own, distinct from the type it names, and a record or enum type is the
  identity of its canonical declaration.
\<close>

datatype c_type =
  Builtin builtin
| Pointer c_type
| ConstantArray c_type nat
| IncompleteArray c_type
| FunctionProto c_type "c_type list" bool
| Tagged decl_id
| Typedef decl_id c_type

text \<open>\<^verbatim>\<open>enum ZigClangBO\<close> of \<^verbatim>\<open>src/zig_clang.h\<close>.\<close>

datatype ZigClangBO =
  BO_PtrMemD | BO_PtrMemI | BO_Mul | BO_Div | BO_Rem | BO_Add | BO_Sub | BO_Shl | BO_Shr
| BO_Cmp | BO_LT | BO_GT | BO_LE | BO_GE | BO_EQ | BO_NE | BO_And | BO_Xor | BO_Or
| BO_LAnd | BO_LOr | BO_Assign | BO_MulAssign | BO_DivAssign | BO_RemAssign
| BO_AddAssign | BO_SubAssign | BO_ShlAssign | BO_ShrAssign | BO_AndAssign
| BO_XorAssign | BO_OrAssign | BO_Comma


datatype switch_label = Case int | Default


datatype tag_kind = Struct | Union | Enum

text \<open>
  The definition of a record (its fields) or of an enum (its enumerators); and the
  top-level declarations. A tag declaration without definition is a forward declaration,
  a function declaration without body a prototype.
\<close>

datatype tag_def =
  Fields "(string \<times> c_type) list"
| Enumerators "(string \<times> int) list"


text \<open>Preprocessor tokens and macro definition records.\<close>

datatype token =
  TkNum int | TkIdent string | TkPlus | TkMinus | TkStar | TkSlash
| TkLParen | TkRParen | TkComma | TkHash | TkHashHash



subsection \<open>The translated program\<close>

text \<open>
  Modelled from the spec: the data model of the translation engine (section 3), whose
  code is not among the sources. Types are referred to by handle, an index into the
  arena of the type registry. A record or enum is the node \<open>TTag\<close>; its definition
  lives in an indirection cell of its own, so that it can be filled in later without
  touching the holders of the handle.
\<close>

type_synonym handle = nat

datatype translated_type =
  TPrimitive builtin
| TPointer handle
| TArray handle nat
| TIncompleteArray handle
| TFunction handle "handle list" bool
| TTag decl_id
| TAlias decl_id handle

datatype translated_expr =
  TLiteral int c_type
| TIdentifier string
| TCast c_type translated_expr
| TBinary ZigClangBO c_type c_type translated_expr translated_expr
| TCompoundAssign ZigClangBO c_type c_type c_type translated_expr translated_expr
| TCall translated_expr "translated_expr list"
| TUnsupported c_type

text \<open>
  \<open>TBinary op computation_type result_type\<close> and
  \<open>TCompoundAssign op computation_lhs_type computation_result_type result_type\<close> carry
  the computation type next to the result type. An arm of a \<open>switch\<close> has its labels,
  its body, and the marker that control falls through into the next arm; the flag of
  \<open>TSwitch\<close> is the exhaustiveness hint.
\<close>

datatype translated_stmt =
  TExprStmt translated_expr
| TDeclStmt string c_type "translated_expr option"
| TBlock "translated_stmt list"
| TIf translated_expr translated_stmt translated_stmt
| TWhile translated_expr translated_stmt
| TSwitch translated_expr "arm list" bool
| TBreak
| TContinue
| TReturn "translated_expr option"
| TLabeled string translated_stmt
| TJump string
| TUnreachable
and arm =
  Arm "switch_label list" "translated_stmt list" bool

datatype macro_expr =
  MNum int
| MIdent string
| MNeg macro_expr
| MBin ZigClangBO macro_expr macro_expr
| MCall string "macro_expr list"

datatype translated_decl =
  DFunction decl_id string handle "translated_stmt option"
| DTag decl_id
| DAlias decl_id string handle
| DVar decl_id string handle "translated_expr option"
| DMacroConst string int builtin
| DMacroFn string "string list" macro_expr

datatype diagnostic =
  Unsupported_expression
| Unsupported_jump string
| Unrepresentable_macro string

datatype resolved_tag = Resolved tag_kind string "(string \<times> handle) list" "(string \<times> int) list"

text \<open>
  Modelled from the spec: the \<open>TranslationContext\<close>. The type cache and the cells are
  association lists, looked up with \<^const>\<open>map_of\<close>.
\<close>

record translation_context =
  type_cache :: "(c_type \<times> handle) list"
  arena :: "translated_type list"
  cells :: "(decl_id \<times> tag_def \<times> resolved_tag) list"
  pending_forward_decls :: "decl_id list"
  diagnostics :: "diagnostic list"
  output_decls :: "translated_decl list"

definition empty_context :: translation_context where
  "empty_context =
     \<lparr> type_cache = [], arena = [], cells = [], pending_forward_decls = [],
       diagnostics = [], output_decls = [] \<rparr>"


subsection \<open>Type Registry\<close>

text \<open>
  A new node goes to the end of the arena; its handle is its index, and the cache
  remembers it under the type's identity.
\<close>

definition register_type :: "translation_context \<Rightarrow> c_type \<Rightarrow> translated_type \<Rightarrow> handle \<times> translation_context" where
  "register_type c ty node =
     (length (arena c),
      c\<lparr>arena := arena c @ [node], type_cache := (ty, length (arena c)) # type_cache c\<rparr>)"

text \<open>
  A record or enum met for the first time: the opaque placeholder. Its declaration is
  emitted at once (hoisted before the declaration that refers to it) and the tag waits
  among the pending forward declarations for its definition.
\<close>

definition forward_tag :: "translation_context \<Rightarrow> decl_id \<Rightarrow> handle \<times> translation_context" where
  "forward_tag c d =
     (case register_type c (Tagged d) (TTag d) of
        (h, c1) \<Rightarrow>
          (h, c1\<lparr>pending_forward_decls := d # pending_forward_decls c1,
                 output_decls := output_decls c1 @ [DTag d]\<rparr>))"

text \<open>
  Modelled from the spec: \<open>translate_type(c_type) -> TranslatedType handle\<close> of the Type
  Registry (section 4.1), whose code is not among the sources. The cache is looked up
  by the type's identity first; on a miss the component types are translated, then the
  node is registered.
\<close>

fun translate_type :: "translation_context \<Rightarrow> c_type \<Rightarrow> handle \<times> translation_context"
  and translate_types :: "translation_context \<Rightarrow> c_type list \<Rightarrow> handle list \<times> translation_context" where
  "translate_type c (Builtin b) =
     (case map_of (type_cache c) (Builtin b) of
        Some h \<Rightarrow> (h, c)
      | None \<Rightarrow> register_type c (Builtin b) (TPrimitive b))"
| "translate_type c (Pointer t) =
     (case map_of (type_cache c) (Pointer t) of
        Some h \<Rightarrow> (h, c)
      | None \<Rightarrow>
          (case translate_type c t of
             (h, c1) \<Rightarrow> register_type c1 (Pointer t) (TPointer h)))"
| "translate_type c (ConstantArray t n) =
     (case map_of (type_cache c) (ConstantArray t n) of
        Some h \<Rightarrow> (h, c)
      | None \<Rightarrow>
          (case translate_type c t of
             (h, c1) \<Rightarrow> register_type c1 (ConstantArray t n) (TArray h n)))"
| "translate_type c (IncompleteArray t) =
     (case map_of (type_cache c) (IncompleteArray t) of
        Some h \<Rightarrow> (h, c)
      | None \<Rightarrow>
          (case translate_type c t of
             (h, c1) \<Rightarrow> register_type c1 (IncompleteArray t) (TIncompleteArray h)))"
| "translate_type c (FunctionProto r ps variadic) =
     (case map_of (type_cache c) (FunctionProto r ps variadic) of
        Some h \<Rightarrow> (h, c)
      | None \<Rightarrow>
          (case translate_type c r of
             (hr, c1) \<Rightarrow>
               (case translate_types c1 ps of
                  (hs, c2) \<Rightarrow>
                    register_type c2 (FunctionProto r ps variadic) (TFunction hr hs variadic))))"
| "translate_type c (Tagged d) =
     (case map_of (type_cache c) (Tagged d) of
        Some h \<Rightarrow> (h, c)
      | None \<Rightarrow> forward_tag c d)"
| "translate_type c (Typedef d t) =
     (case map_of (type_cache c) (Typedef d t) of
        Some h \<Rightarrow> (h, c)
      | None \<Rightarrow>
          (case translate_type c t of
             (h, c1) \<Rightarrow> register_type c1 (Typedef d t) (TAlias d h)))"
| "translate_types c [] = ([], c)"
| "translate_types c (t # ts) =
     (case translate_type c t of
        (h, c1) \<Rightarrow>
          (case translate_types c1 ts of
             (hs, c2) \<Rightarrow> (h # hs, c2)))"



subsection \<open>Expression Translator\<close>




subsection \<open>Statement Translator\<close>







subsection \<open>Macro Evaluator\<close>

text \<open>
  A parser for the replacement tokens of a macro, by recursive descent: sums of products
  of negations of numbers, identifiers, calls and parenthesised expressions. The first
  argument bounds the depth of the descent.
\<close>

fun token_num :: "token \<Rightarrow> int option" where
  "token_num (TkNum k) = Some k"
| "token_num _ = None"

fun token_ident :: "token \<Rightarrow> string option" where
  "token_ident (TkIdent x) = Some x"
| "token_ident _ = None"

function (sequential) parse_expr :: "nat \<Rightarrow> token list \<Rightarrow> (macro_expr \<times> token list) option"
  and parse_expr_rest :: "nat \<Rightarrow> macro_expr \<Rightarrow> token list \<Rightarrow> (macro_expr \<times> token list) option"
  and parse_term :: "nat \<Rightarrow> token list \<Rightarrow> (macro_expr \<times> token list) option"
  and parse_term_rest :: "nat \<Rightarrow> macro_expr \<Rightarrow> token list \<Rightarrow> (macro_expr \<times> token list) option"
  and parse_unary :: "nat \<Rightarrow> token list \<Rightarrow> (macro_expr \<times> token list) option"
  and parse_call_args :: "nat \<Rightarrow> token list \<Rightarrow> (macro_expr list \<times> token list) option" where
  "parse_expr 0 ts = None"
| "parse_expr (Suc n) ts =
     (case parse_term n ts of
        None \<Rightarrow> None
      | Some (l, rest) \<Rightarrow> parse_expr_rest n l rest)"
| "parse_expr_rest 0 l ts = None"
| "parse_expr_rest (Suc n) l ts =
     (if take 1 ts = [TkPlus] then
        (case parse_term n (drop 1 ts) of
           None \<Rightarrow> None
         | Some (r, rest) \<Rightarrow> parse_expr_rest n (MBin BO_Add l r) rest)
      else if take 1 ts = [TkMinus] then
        (case parse_term n (drop 1 ts) of
           None \<Rightarrow> None
         | Some (r, rest) \<Rightarrow> parse_expr_rest n (MBin BO_Sub l r) rest)
      else Some (l, ts))"
| "parse_term 0 ts = None"
| "parse_term (Suc n) ts =
     (case parse_unary n ts of
        None \<Rightarrow> None
      | Some (l, rest) \<Rightarrow> parse_term_rest n l rest)"
| "parse_term_rest 0 l ts = None"
| "parse_term_rest (Suc n) l ts =
     (if take 1 ts = [TkStar] then
        (case parse_unary n (drop 1 ts) of
           None \<Rightarrow> None
         | Some (r, rest) \<Rightarrow> parse_term_rest n (MBin BO_Mul l r) rest)
      else if take 1 ts = [TkSlash] then
        (case parse_unary n (drop 1 ts) of
           None \<Rightarrow> None
         | Some (r, rest) \<Rightarrow> parse_term_rest n (MBin BO_Div l r) rest)
      else Some (l, ts))"
| "parse_unary 0 ts = None"
| "parse_unary (Suc n) ts =
     (case ts of
        [] \<Rightarrow> None
      | t # rest \<Rightarrow>
          (if t = TkMinus then
             (case parse_unary n rest of
                None \<Rightarrow> None
              | Some (e, rest') \<Rightarrow> Some (MNeg e, rest'))
           else if t = TkLParen then
             (case parse_expr n rest of
                None \<Rightarrow> None
              | Some (e, rest') \<Rightarrow>
                  (if take 1 rest' = [TkRParen] then Some (e, drop 1 rest') else None))
           else
             (case token_num t of
                Some k \<Rightarrow> Some (MNum k, rest)
              | None \<Rightarrow>
                  (case token_ident t of
                     None \<Rightarrow> None
                   | Some x \<Rightarrow>
                       (if take 2 rest = [TkLParen, TkRParen] then Some (MCall x [], drop 2 rest)
                        else if take 1 rest = [TkLParen] then
                          (case parse_call_args n (drop 1 rest) of
                             None \<Rightarrow> None
                           | Some (as, rest') \<Rightarrow> Some (MCall x as, rest'))
                        else Some (MIdent x, rest))))))"
| "parse_call_args 0 ts = None"
| "parse_call_args (Suc n) ts =
     (case parse_expr n ts of
        None \<Rightarrow> None
      | Some (e, rest) \<Rightarrow>
          (if take 1 rest = [TkComma] then
             (case parse_call_args n (drop 1 rest) of
                None \<Rightarrow> None
              | Some (es, rest') \<Rightarrow> Some (e # es, rest'))
           else if take 1 rest = [TkRParen] then Some ([e], drop 1 rest)
           else None))"
  by pat_completeness auto
termination
  by (relation "measure (case_sum (case_sum fst (case_sum fst fst)) (case_sum fst (case_sum fst fst)))")
     auto


text \<open>
  Constant evaluation in the type \<open>int\<close> (32 bits): a result outside its range, a
  division by zero, an identifier or a call make the expression not constant. Division
  truncates towards zero.
\<close>

definition in_int_range :: "int \<Rightarrow> bool" where
  "in_int_range v \<longleftrightarrow> - 2147483648 \<le> v \<and> v \<le> 2147483647"



definition checked :: "int option \<Rightarrow> int option" where
  "checked r = (case r of None \<Rightarrow> None | Some v \<Rightarrow> if in_int_range v then Some v else None)"


text \<open>
  The body of a function-like macro is a direct expression over its parameters: every
  identifier used as a value is a formal parameter (the callee of a call is a name, not
  a value).
\<close>

fun only_params :: "string list \<Rightarrow> macro_expr \<Rightarrow> bool"
  and only_params_list :: "string list \<Rightarrow> macro_expr list \<Rightarrow> bool" where
  "only_params ps (MNum k) = True"
| "only_params ps (MIdent x) = (x \<in> set ps)"
| "only_params ps (MNeg e) = only_params ps e"
| "only_params ps (MBin op l r) = (only_params ps l \<and> only_params ps r)"
| "only_params ps (MCall f as) = only_params_list ps as"
| "only_params_list ps [] = True"
| "only_params_list ps (e # es) = (only_params ps e \<and> only_params_list ps es)"


subsection \<open>Declaration Orchestrator\<close>















text \<open>\<^verbatim>\<open>enum TranslateMode\<close> of \<^verbatim>\<open>src/translate_c.hpp\<close>.\<close>

datatype TranslateMode = TranslateModeImport | TranslateModeTranslate


text \<open>The type cache of \<open>c'\<close> extends that of \<open>c\<close>.\<close>

definition cache_le :: "translation_context \<Rightarrow> translation_context \<Rightarrow> bool" where
  "cache_le c c' \<longleftrightarrow> (\<forall>k v. map_of (type_cache c) k = Some v \<longrightarrow> map_of (type_cache c') k = Some v)"

subsection \<open>Example inputs\<close>











subsection \<open>The cases of a \<open>switch\<close> and their fallthrough transitions\<close>








fun arm_body :: "arm \<Rightarrow> translated_stmt list" where
  "arm_body (Arm ls body falls) = body"








subsection \<open>What a step of the registry may change\<close>




subsection \<open>Counting unsupported constructs and stubs\<close>










subsection \<open>Declarations by kind\<close>










section \<open>Path split and join: proofs\<close>

lemma split_scan_Some:
  "split_scan w p n = Some i \<Longrightarrow>
     i \<le> n \<and> os_is_sep w (p ! i) \<and> (\<forall>j. i < j \<and> j \<le> n \<longrightarrow> \<not> os_is_sep w (p ! j))"
proof (induction n)
  case 0
  then show ?case by (simp split: if_splits)
next
  case (Suc n)
  show ?case
  proof (cases "os_is_sep w (p ! Suc n)")
    case True
    with Suc.prems show ?thesis by auto
  next
    case False
    with Suc.prems have "split_scan w p n = Some i" by simp
    from Suc.IH[OF this] False show ?thesis
      by (auto simp: le_Suc_eq)
  qed
qed

lemma split_scan_None:
  "split_scan w p n = None \<longleftrightarrow> (\<forall>j\<le>n. \<not> os_is_sep w (p ! j))"
  by (induction n) (auto simp: le_Suc_eq)

lemma os_path_split_no_sep:
  assumes "\<not> has_sep w p"
  shows "os_path_split w p = (''.'', p)"
proof (cases "p = []")
  case True
  then show ?thesis by (simp add: os_path_split_def)
next
  case False
  from assms have nosep: "\<forall>c\<in>set p. \<not> os_is_sep w c"
    by (simp add: has_sep_def list_ex_iff)
  have "\<forall>j\<le>length p - 1. \<not> os_is_sep w (p ! j)"
  proof (intro allI impI)
    fix j assume "j \<le> length p - 1"
    with False have "j < length p" by (cases p) auto
    then have "p ! j \<in> set p" by simp
    with nosep show "\<not> os_is_sep w (p ! j)" by blast
  qed
  then have scan: "split_scan w p (length p - 1) = None"
    by (simp add: split_scan_None)
  have "\<not> os_is_sep w (p ! (length p - 1))"
    using nosep False by simp
  with scan False show ?thesis
    by (simp add: os_path_split_def Let_def)
qed

lemma adjacent_seps_nth:
  "\<not> adjacent_seps w p \<Longrightarrow> Suc i < length p \<Longrightarrow>
     \<not> (os_is_sep w (p ! i) \<and> os_is_sep w (p ! Suc i))"
proof (induction w p arbitrary: i rule: adjacent_seps.induct)
  case (1 w a b cs)
  then show ?case by (cases i) auto
qed auto

lemma last_sep_at:
  assumes "i < length q" "os_is_sep w (q ! i)"
    and "\<forall>j. i < j \<and> j < length q \<longrightarrow> \<not> os_is_sep w (q ! j)"
  shows "last_sep w q = Some (q ! i)"
proof -
  have q: "q = take i q @ q ! i # drop (Suc i) q"
    using assms(1) by (simp add: id_take_nth_drop)
  have "\<forall>c\<in>set (drop (Suc i) q). \<not> os_is_sep w c"
    using assms(3) by (auto simp: in_set_conv_nth)
  then have "filter (os_is_sep w) (drop (Suc i) q) = []"
    by (simp add: filter_empty_conv)
  then have "filter (os_is_sep w) q = filter (os_is_sep w) (take i q) @ [q ! i]"
    using assms(2) by (subst q) simp
  then show ?thesis
    by (simp add: last_sep_def)
qed

lemma os_path_roundtrip_aux:
  assumes ne: "p \<noteq> []"
    and lst: "\<not> os_is_sep w (last p)"
    and ex: "has_sep w p"
    and adj: "\<not> adjacent_seps w p"
    and nat: "last_sep w (tl p) = None \<or> last_sep w (tl p) = Some sep"
  shows "os_path_join w sep (fst (os_path_split w p)) (snd (os_path_split w p)) = p"
proof -
  let ?n = "length p - 1"
  from ne lst have lastc: "\<not> os_is_sep w (p ! ?n)" by (simp add: last_conv_nth)
  from ex obtain k where k: "k < length p" "os_is_sep w (p ! k)"
    by (auto simp: has_sep_def list_ex_iff in_set_conv_nth)
  then have "k \<le> ?n" by simp
  with k have "split_scan w p ?n \<noteq> None" by (auto simp: split_scan_None)
  then obtain i where scan: "split_scan w p ?n = Some i" by auto
  from split_scan_Some[OF scan]
  have i: "i \<le> ?n" "os_is_sep w (p ! i)" "\<forall>j. i < j \<and> j \<le> ?n \<longrightarrow> \<not> os_is_sep w (p ! j)"
    by auto
  from i lastc have iless: "i < ?n" by (cases "i = ?n") auto
  then have ilen: "Suc i < length p" by simp
  have split: "os_path_split w p =
      (take (if i = 0 then 1 else i) p, drop (Suc i) p)"
    using ne lastc scan by (simp add: os_path_split_def Let_def)
  show ?thesis
  proof (cases "i = 0")
    case True
    with i(2) split show ?thesis
      using ne by (cases p) (auto simp add: os_path_join_def Let_def)
  next
    case False
    then obtain i' where i': "i = Suc i'" by (cases i) auto
    from adjacent_seps_nth[OF adj, of i'] ilen i(2) i'
    have prev: "\<not> os_is_sep w (p ! i')" by auto 
    have tk: "take i p \<noteq> []" using ilen False by auto
    have lasttk: "take i p ! (length (take i p) - 1) = p ! i'"
      using ilen i' by simp
    have tlnth: "\<And>j. j < length (tl p) \<Longrightarrow> tl p ! j = p ! Suc j"
      using ne by (cases p) auto
    have "last_sep w (tl p) = Some (tl p ! i')"
    proof (rule last_sep_at)
      show "i' < length (tl p)" using ilen i' by simp
      show "os_is_sep w (tl p ! i')" using i(2) i' ilen tlnth by simp
      show "\<forall>j. i' < j \<and> j < length (tl p) \<longrightarrow> \<not> os_is_sep w (tl p ! j)"
        using i(3) i' tlnth by auto
    qed
    with nat have "tl p ! i' = sep" by auto
    then have "p ! i = sep" using tlnth[of i'] ilen i' by simp
    then have "take i p @ [sep] @ drop (Suc i) p = p"
      using ilen by (metis Suc_lessD append_Cons append_Nil id_take_nth_drop)
    with split False tk lasttk prev show ?thesis
      by (simp add: os_path_join_def Let_def)
  qed
qed

text \<open>
  C9 (as amended). For a non-empty path that does not end with a separator, contains a
  separator and has no two adjacent separators, splitting and joining again gives the
  path back, provided the last separator of the path is \<^verbatim>\<open>ZIG_OS_SEP_CHAR\<close> or is the
  first character of the path. For a path with no separator the split is
  \<open>(''.'', path)\<close>.
\<close>

theorem os_path_split_join_roundtrip:
  "(full_path \<noteq> [] \<and> \<not> os_is_sep windows (last full_path) \<and> has_sep windows full_path \<and>
    \<not> adjacent_seps windows full_path \<and>
    (last_sep windows (tl full_path) = None \<or> last_sep windows (tl full_path) = Some sep_char) \<longrightarrow>
      os_path_join windows sep_char (fst (os_path_split windows full_path))
        (snd (os_path_split windows full_path)) = full_path) \<and>
   (\<not> has_sep windows full_path \<longrightarrow> os_path_split windows full_path = (''.'', full_path))"
  using os_path_roundtrip_aux [of full_path windows sep_char] os_path_split_no_sep [of windows full_path]
  by blast

theorem os_path_split_join_roundtrip_witness:
  "os_path_join False (CHR ''/'') (fst (os_path_split False ''src/os.cpp''))
        (snd (os_path_split False ''src/os.cpp'')) = ''src/os.cpp'' \<and>
   os_path_split False ''main.cpp'' = (''.'', ''main.cpp'')"
proof -
  have a: "''src/os.cpp'' \<noteq> [] \<and> \<not> os_is_sep False (last ''src/os.cpp'') \<and>
    has_sep False ''src/os.cpp'' \<and> \<not> adjacent_seps False ''src/os.cpp'' \<and>
    (last_sep False (tl ''src/os.cpp'') = None \<or>
     last_sep False (tl ''src/os.cpp'') = Some (CHR ''/''))"
    by (simp add: os_is_sep_def has_sep_def last_sep_def)
  have b: "\<not> has_sep False ''main.cpp''"
    by (simp add: os_is_sep_def has_sep_def)
  from a b os_path_split_join_roundtrip [of "''src/os.cpp''" False "CHR ''/''"]
    os_path_split_join_roundtrip [of "''main.cpp''" False "CHR ''/''"]
  show ?thesis by blast
qed

text \<open>
  C9 as stated fails in the Windows configuration, where the slash is accepted as a
  separator but the join inserts the backslash: \<open>a/b\<close> comes back as \<open>a\b\<close>.
\<close>

theorem os_path_split_join_windows_counterexample:
  "''a/b'' \<noteq> [] \<and> \<not> os_is_sep True (last ''a/b'') \<and> has_sep True ''a/b'' \<and>
   \<not> adjacent_seps True ''a/b'' \<and>
   os_path_split True ''a/b'' = (''a'', ''b'') \<and>
   os_path_join True backslash (fst (os_path_split True ''a/b''))
     (snd (os_path_split True ''a/b'')) = [CHR ''a'', backslash, CHR ''b''] \<and>
   os_path_join True backslash (fst (os_path_split True ''a/b''))
     (snd (os_path_split True ''a/b'')) \<noteq> ''a/b''"
  by (simp add: os_is_sep_def has_sep_def os_path_split_def os_path_join_def backslash_def)

section \<open>The driver: proofs\<close>

lemma quiet_print_error_usage:
  "quiet (print_error_usage arg0 es) \<longleftrightarrow> (\<forall>e\<in>set es. \<not> is_translation_effect e)"
  by (auto simp: quiet_def print_error_usage_def)

lemma quiet_prepend:
  "quiet (prepend_effects es out) \<longleftrightarrow> (\<forall>e\<in>set es. \<not> is_translation_effect e) \<and> quiet out"
  by (cases out) (auto simp: quiet_def)

lemma quiet_Exit: "quiet (Exit es c) \<longleftrightarrow> (\<forall>e\<in>set es. \<not> is_translation_effect e)"
  by (simp add: quiet_def)

lemma quiet_Assertion_failed: "quiet (Assertion_failed es) \<longleftrightarrow> (\<forall>e\<in>set es. \<not> is_translation_effect e)"
  by (simp add: quiet_def)

lemma qr_if: "(c \<Longrightarrow> quiet_result a) \<Longrightarrow> (\<not> c \<Longrightarrow> quiet_result b) \<Longrightarrow> quiet_result (if c then a else b)"
  by simp

lemma qr_continue: "quiet_result (Continue [] v n)"
  by simp

lemma qr_continue_stderr: "quiet_result (Continue [Stderr m] v n)"
  by simp

lemma qr_usage: "quiet_result (Return (print_error_usage arg0 [Stderr m]))"
  by (simp add: quiet_print_error_usage)

lemma qr_exit: "quiet_result (Return (Exit [Stderr m] c))"
  by (simp add: quiet_Exit)

lemma qr_exit_usage:
  "quiet_result (Return (Exit [Libc_usage_stdout] c))"
  "quiet_result (Return (Exit [Full_usage_stdout] c))"
  by (simp_all add: quiet_Exit)

lemma qr_break: "quiet_result (Break v)"
  by simp

lemma qr_prod: "(\<And>a b. quiet_result (f a b)) \<Longrightarrow> quiet_result (case x of (a, b) \<Rightarrow> f a b)"
  by (cases x) simp

lemma qr_option: "quiet_result a \<Longrightarrow> (\<And>y. quiet_result (f y)) \<Longrightarrow> quiet_result (case x of None \<Rightarrow> a | Some y \<Rightarrow> f y)"
  by (cases x) simp_all

lemma qr_list: "quiet_result a \<Longrightarrow> (\<And>y ys. quiet_result (f y ys)) \<Longrightarrow> quiet_result (case x of [] \<Rightarrow> a | y # ys \<Rightarrow> f y ys)"
  by (cases x) simp_all

lemmas quiet_result_intros = qr_if qr_continue qr_continue_stderr qr_usage qr_exit qr_exit_usage qr_break qr_prod qr_option qr_list

lemma parse_option_with_arg_quiet: "quiet_result (parse_option_with_arg arg0 v arg a others)"
  unfolding parse_option_with_arg_def
  by (intro quiet_result_intros)

lemma parse_dash_arg_quiet: "quiet_result (parse_dash_arg env arg0 v arg rest)"
  unfolding parse_dash_arg_def
  by (intro quiet_result_intros parse_option_with_arg_quiet)

lemma parse_command_quiet: "quiet_result (parse_command arg0 v arg)"
  unfolding parse_command_def
  by (intro quiet_result_intros)

lemma qr_assert: "quiet_result (Return (Assertion_failed []))"
  by (simp add: quiet_Assertion_failed)

lemma parse_positional_quiet: "quiet_result (parse_positional arg0 v arg)"
  unfolding parse_positional_def
  by (intro quiet_result_intros qr_assert)

lemma parse_arg_quiet: "quiet_result (parse_arg env arg0 v arg rest)"
  unfolding parse_arg_def
  by (simp add: parse_dash_arg_quiet parse_command_quiet parse_positional_quiet)

lemma parse_args_quiet:
  assumes "\<forall>e\<in>set es. \<not> is_translation_effect e"
  shows "case parse_args env arg0 es v args of
           Inl out \<Rightarrow> quiet out
         | Inr (es', v') \<Rightarrow> (\<forall>e\<in>set es'. \<not> is_translation_effect e)"
  using assms
proof (induction env arg0 es v args rule: parse_args.induct)
  case (1 env arg0 es v)
  then show ?case by simp
next
  case (2 env arg0 es v arg rest)
  show ?case
  proof (cases "parse_arg env arg0 v arg rest")
    case (Return out)
    with parse_arg_quiet[of env arg0 v arg rest] "2.prems" show ?thesis
      by (simp add: quiet_prepend)
  next
    case (Break v')
    with "2.prems" show ?thesis by simp
  next
    case (Continue es' v' n)
    with parse_arg_quiet[of env arg0 v arg rest]
    have "\<forall>e\<in>set es'. \<not> is_translation_effect e" by simp
    with "2.prems" have "\<forall>e\<in>set (es @ es'). \<not> is_translation_effect e" by auto
    from "2.IH"[OF Continue this] Continue show ?thesis by simp
  qed
qed

lemma refused_usage: "refused (print_error_usage arg0 [Stderr m])"
  by (simp add: refused_def quiet_def print_error_usage_def)

lemma refused_usage_cons: 
  "refused (print_error_usage arg0 (Stderr m # map (\<lambda>s. Stderr (g s)) xs))"
  by (simp add: refused_def quiet_def print_error_usage_def)

lemma check_target_refused: "check_target env arg0 v = Some out \<Longrightarrow> refused out"
  unfolding check_target_def
  by (auto simp only: refused_usage refused_usage_cons split: option.splits target_parse.splits if_splits)

lemma check_options_refused: "check_options env arg0 v = Inl out \<Longrightarrow> refused out"
  unfolding check_options_def
  apply (auto simp only: refused_usage check_target_refused split: option.splits if_splits)
  apply (simp_all add: refused_def quiet_def)
  done

lemma check_options_quiet: "check_options env arg0 v = Inr es' \<Longrightarrow> \<forall>e\<in>set es'. \<not> is_translation_effect e"
  unfolding check_options_def
  by (auto simp only: split: option.splits if_splits) simp_all

lemma build_like_no_file:
  assumes "cmd v = CmdTranslateC" "in_file v = None"
  shows "build_like_command env arg0 es v =
           print_error_usage arg0 (es @ [Stderr ''Expected source file argument.\<newline>''])"
  using assms by (simp add: build_like_command_def)

lemma effects_print_error_usage:
  "Codegen_translate_c f \<in> set (effects (print_error_usage arg0 (es @ [Stderr m]))) \<longleftrightarrow>
     Codegen_translate_c f \<in> set es"
  by (auto simp: print_error_usage_def)

lemma translate_c_command_effects:
  "Codegen_translate_c f \<in> set (effects (translate_c_command env es v)) \<Longrightarrow>
     Codegen_translate_c f \<in> set es \<or> in_file v = Some f"
  by (auto simp: translate_c_command_def split: option.splits if_splits)

lemma create_and_run_effects:
  "Codegen_translate_c f \<in> set (effects (create_and_run env es v)) \<Longrightarrow>
     Codegen_translate_c f \<in> set es \<or> (cmd v = CmdTranslateC \<and> in_file v = Some f)"
  by (auto simp: create_and_run_def Let_def split: option.splits if_splits
           dest!: translate_c_command_effects)

lemma build_like_translate:
  "Codegen_translate_c f \<in> set (effects (build_like_command env arg0 es v)) \<Longrightarrow>
     Codegen_translate_c f \<in> set es \<or> (cmd v = CmdTranslateC \<and> in_file v = Some f)"
  unfolding build_like_command_def
  by (auto simp only: effects_print_error_usage effects.simps split: if_splits
           dest!: create_and_run_effects)

lemma run_command_translate:
  "Codegen_translate_c f \<in> set (effects (run_command env arg0 es v)) \<Longrightarrow>
     Codegen_translate_c f \<in> set es \<or> (cmd v = CmdTranslateC \<and> in_file v = Some f)"
  by (cases "cmd v") (auto simp: run_command_def dest!: build_like_translate)

lemma main_parsed:
  assumes "early_command (arg0 # args) = None"
    and "parse_args env arg0 [] initial_vars args = Inr (es, v)"
  shows "main env arg0 args =
           (case check_options env arg0 v of
              Inl out \<Rightarrow> prepend_effects es out
            | Inr es' \<Rightarrow> run_command env arg0 (es @ es') v)"
  using assms by (simp add: main_def)

lemma refused_prepend:
  "\<forall>e\<in>set es. \<not> is_translation_effect e \<Longrightarrow> refused out \<Longrightarrow> refused (prepend_effects es out)"
  by (cases out) (auto simp: refused_def quiet_def)

lemma refused_usage_append:
  "\<forall>e\<in>set es. \<not> is_translation_effect e \<Longrightarrow> refused (print_error_usage arg0 (es @ [Stderr m]))"
  by (auto simp: refused_def quiet_def print_error_usage_def)

text \<open>
  C10 (as amended). Whenever the argument loop ends with the \<^verbatim>\<open>translate-c\<close> command
  and no source file, \<^verbatim>\<open>main\<close> calls neither \<^verbatim>\<open>codegen_create\<close> nor
  \<^verbatim>\<open>codegen_translate_c\<close>, and it ends with \<^verbatim>\<open>EXIT_FAILURE\<close> (or inside LLVM's option
  parser); when the option checks before \<^verbatim>\<open>switch (cmd)\<close> pass, what it prints last is
  \<open>Expected source file argument.\<close> and the usage hint. In every run,
  \<^verbatim>\<open>codegen_translate_c\<close> is only called for the \<^verbatim>\<open>translate-c\<close> command with the
  source file that was given.
\<close>

theorem translate_c_without_source_file:
  "(early_command (arg0 # args) = None \<and>
    parse_args env arg0 [] initial_vars args = Inr (es, v) \<and>
    cmd v = CmdTranslateC \<and> in_file v = None \<longrightarrow>
      list_all (\<lambda>e. \<not> is_translation_effect e) (effects (main env arg0 args)) \<and>
      (exits_with_failure (main env arg0 args) \<or> ends_in_llvm (main env arg0 args)) \<and>
      (\<forall>es'. check_options env arg0 v = Inr es' \<longrightarrow>
         main env arg0 args =
           print_error_usage arg0 (es @ es' @ [Stderr ''Expected source file argument.\<newline>'']))) \<and>
   (Codegen_translate_c f \<in> set (effects (main env arg0 args)) \<longrightarrow>
      (\<exists>es v. parse_args env arg0 [] initial_vars args = Inr (es, v) \<and>
         cmd v = CmdTranslateC \<and> in_file v = Some f))"
proof (intro conjI impI)
  assume h: "early_command (arg0 # args) = None \<and>
    parse_args env arg0 [] initial_vars args = Inr (es, v) \<and>
    cmd v = CmdTranslateC \<and> in_file v = None"
  then have m: "main env arg0 args =
           (case check_options env arg0 v of
              Inl out \<Rightarrow> prepend_effects es out
            | Inr es' \<Rightarrow> run_command env arg0 (es @ es') v)"
    by (simp add: main_parsed)
  from parse_args_quiet[of "[]" env arg0 initial_vars args] h
  have qes: "\<forall>e\<in>set es. \<not> is_translation_effect e" by simp
  have run: "run_command env arg0 es0 v =
      print_error_usage arg0 (es0 @ [Stderr ''Expected source file argument.\<newline>''])" for es0
    using h by (simp add: run_command_def build_like_no_file)
  have r: "refused (main env arg0 args)"
  proof (cases "check_options env arg0 v")
    case (Inl out)
    with m check_options_refused[OF Inl] qes show ?thesis
      by (simp add: refused_prepend)
  next
    case (Inr es')
    from check_options_quiet[OF Inr] qes
    have "\<forall>e\<in>set (es @ es'). \<not> is_translation_effect e" by auto
    from refused_usage_append[OF this] m Inr run show ?thesis by simp
  qed
  then show "list_all (\<lambda>e. \<not> is_translation_effect e) (effects (main env arg0 args))"
    by (simp add: refused_def quiet_def list_all_iff)
  from r show "exits_with_failure (main env arg0 args) \<or> ends_in_llvm (main env arg0 args)"
    by (simp add: refused_def)
  show "\<forall>es'. check_options env arg0 v = Inr es' \<longrightarrow>
         main env arg0 args =
           print_error_usage arg0 (es @ es' @ [Stderr ''Expected source file argument.\<newline>''])"
    using m run by simp
next
  assume c: "Codegen_translate_c f \<in> set (effects (main env arg0 args))"
  show "\<exists>es v. parse_args env arg0 [] initial_vars args = Inr (es, v) \<and>
         cmd v = CmdTranslateC \<and> in_file v = Some f"
  proof (cases "early_command (arg0 # args)")
    case (Some name)
    with c show ?thesis by (simp add: main_def)
  next
    case None
    show ?thesis
    proof (cases "parse_args env arg0 [] initial_vars args")
      case (Inl out)
      with parse_args_quiet[of "[]" env arg0 initial_vars args] have "quiet out" by simp
      moreover from c None Inl have "Codegen_translate_c f \<in> set (effects out)"
        by (simp add: main_def)
      ultimately show ?thesis by (auto simp: quiet_def)
    next
      case (Inr p)
      obtain es v where p: "p = (es, v)" by (cases p)
      from parse_args_quiet[of "[]" env arg0 initial_vars args] Inr p
      have qes: "\<forall>e\<in>set es. \<not> is_translation_effect e" by simp
      note m = main_parsed[OF None Inr[unfolded p]]
      show ?thesis
      proof (cases "check_options env arg0 v")
        case (Inl out)
        from check_options_refused[OF Inl] qes have "quiet (prepend_effects es out)"
          by (simp add: quiet_prepend refused_def)
        with c m Inl show ?thesis by (auto simp: quiet_def)
      next
        case (Inr es')
        from check_options_quiet[OF Inr] qes
        have "Codegen_translate_c f \<notin> set (es @ es')" by auto
        moreover from c m Inr
        have "Codegen_translate_c f \<in> set (effects (run_command env arg0 (es @ es') v))" by simp
        ultimately have "cmd v = CmdTranslateC \<and> in_file v = Some f"
          using run_command_translate by blast
        with \<open>parse_args env arg0 [] initial_vars args = Inr p\<close> p show ?thesis by simp
      qed
    qed
  qed
qed

theorem translate_c_without_source_file_witness:
  "main native_env ''zig'' [''translate-c''] =
     Exit [Stderr ''Expected source file argument.\<newline>'',
           Stderr ''See `zig --help` for detailed usage information\<newline>''] EXIT_FAILURE \<and>
   (\<exists>es v. parse_args native_env ''zig'' [] initial_vars [''translate-c'', ''foo.c''] = Inr (es, v) \<and>
      cmd v = CmdTranslateC \<and> in_file v = Some ''foo.c'')"
proof -
  have early: "early_command [''zig'', ''translate-c''] = None"
    by (simp add: early_command_def)
  have parsed: "parse_args native_env ''zig'' [] initial_vars [''translate-c''] =
         Inr ([], initial_vars\<lparr>cmd := CmdTranslateC\<rparr>)"
    by (simp add: parse_arg_def starts_with_dash_def parse_command_def initial_vars_def)
  have checked: "check_options native_env ''zig'' (initial_vars\<lparr>cmd := CmdTranslateC\<rparr>) = Inr []"
    by (simp add: check_options_def check_target_def initial_vars_def native_env_def)
  have vars: "cmd (initial_vars\<lparr>cmd := CmdTranslateC\<rparr>) = CmdTranslateC"
    "in_file (initial_vars\<lparr>cmd := CmdTranslateC\<rparr>) = None"
    by (simp_all add: initial_vars_def)
  have ran: "main native_env ''zig'' [''translate-c'', ''foo.c''] =
      Exit [Codegen_create None, Codegen_translate_c ''foo.c''] EXIT_SUCCESS"
    by (simp add: main_def early_command_def parse_arg_def starts_with_dash_def parse_command_def
        parse_positional_def initial_vars_def check_options_def check_target_def native_env_def
        run_command_def build_like_command_def output_name_def create_and_run_def
        translate_c_command_def)
  from translate_c_without_source_file
         [of "''zig''" "[''translate-c'']" native_env "[]" "initial_vars\<lparr>cmd := CmdTranslateC\<rparr>"]
       early parsed checked vars
  have "main native_env ''zig'' [''translate-c''] =
          print_error_usage ''zig'' ([] @ [] @ [Stderr ''Expected source file argument.\<newline>''])"
    by blast
  moreover
  from translate_c_without_source_file
         [of "''zig''" "[''translate-c'', ''foo.c'']" native_env _ _ "''foo.c''"] ran
  have "\<exists>es v. parse_args native_env ''zig'' [] initial_vars [''translate-c'', ''foo.c''] = Inr (es, v) \<and>
      cmd v = CmdTranslateC \<and> in_file v = Some ''foo.c''"
    by simp
  ultimately show ?thesis
    by (simp add: print_error_usage_def)
qed

text \<open>
  C10 as stated fails: \<^verbatim>\<open>zig translate-c --help\<close> names no source file, prints the
  usage text to standard output and returns \<^verbatim>\<open>EXIT_SUCCESS\<close>; and with
  \<^verbatim>\<open>--emit asm\<close> the message is another one.
\<close>

theorem translate_c_help_counterexample:
  "main native_env ''zig'' [''translate-c'', ''--help''] = Exit [Full_usage_stdout] EXIT_SUCCESS \<and>
   EXIT_SUCCESS \<noteq> EXIT_FAILURE \<and>
   Stderr ''Expected source file argument.\<newline>'' \<notin>
     set (effects (main native_env ''zig'' [''translate-c'', ''--emit'', ''asm'']))"
proof -
  have a: "main native_env ''zig'' [''translate-c'', ''--help''] = Exit [Full_usage_stdout] EXIT_SUCCESS"
    by (simp add: main_def early_command_def parse_arg_def starts_with_dash_def parse_command_def
        parse_dash_arg_def stored_flags_1_def initial_vars_def)
  have b: "main native_env ''zig'' [''translate-c'', ''--emit'', ''asm''] =
      print_error_usage ''zig''
        [Stderr ''A root source file is required when using `--emit asm` or `--emit llvm-ir`\<newline>'']"
    by (simp add: main_def early_command_def parse_arg_def starts_with_dash_def parse_command_def
        parse_dash_arg_def parse_option_with_arg_def stored_flags_1_def stored_flags_2_def
        stored_flags_3_def stored_flags_4_def has_short_prefix_def initial_vars_def
        check_options_def check_target_def native_env_def print_error_usage_def)
  show ?thesis
    by (simp add: a b print_error_usage_def EXIT_SUCCESS_def EXIT_FAILURE_def)
qed

section \<open>The type registry: proofs\<close>

lemma register_type_cache:
  "register_type c ty node = (h, c') \<Longrightarrow> map_of (type_cache c') ty = Some h"
  by (auto simp: register_type_def)

lemma register_type_keeps:
  "register_type c ty node = (h, c') \<Longrightarrow> map_of (type_cache c) ty = None \<Longrightarrow>
     map_of (type_cache c) k = Some v \<Longrightarrow> map_of (type_cache c') k = Some v"
  by (auto simp: register_type_def)

lemma translate_type_hit:
  "map_of (type_cache c) ty = Some h \<Longrightarrow> translate_type c ty = (h, c)"
  by (cases ty) simp_all

lemma translate_type_cached:
  "translate_type c ty = (h, c') \<Longrightarrow> map_of (type_cache c') ty = Some h"
  by (cases ty)
     (auto simp: forward_tag_def split: option.splits prod.splits dest: register_type_cache)

lemma cache_le_refl: "cache_le c c"
  by (simp add: cache_le_def)

lemma cache_le_trans: "cache_le a b \<Longrightarrow> cache_le b c \<Longrightarrow> cache_le a c"
  by (simp add: cache_le_def)

lemma cache_le_register:
  assumes "cache_le c c1" "True"
    and "register_type c1 ty node = (h, c')" "map_of (type_cache c) ty = None"
  shows "cache_le c c'"
  using assms by (auto simp: cache_le_def register_type_def)

lemma cache_le_forward_tag:
  assumes "forward_tag c d = (h, c')" "map_of (type_cache c) (Tagged d) = None"
  shows "cache_le c c'"
  using assms by (auto simp: cache_le_def forward_tag_def register_type_def)

lemma translate_type_cache_le:
  "translate_type c ty = (h, c') \<Longrightarrow> cache_le c c'"
  "translate_types c tys = (hs, c'') \<Longrightarrow> cache_le c c''"
proof (induction c ty and c tys arbitrary: h c' and hs c'' rule: translate_type_translate_types.induct)
  case (1 c b)
  then show ?case
    by (auto simp: cache_le_refl split: option.splits intro: cache_le_register[OF cache_le_refl])
next
  case (2 c t)
  then show ?case
    by (auto simp: cache_le_refl split: option.splits prod.splits intro: cache_le_register)
next
  case (3 c t n)
  then show ?case
    by (auto simp: cache_le_refl split: option.splits prod.splits intro: cache_le_register)
next
  case (4 c t)
  then show ?case
    by (auto simp: cache_le_refl split: option.splits prod.splits intro: cache_le_register)
next
  case (5 c r ps variadic)
  show ?case
  proof (cases "map_of (type_cache c) (FunctionProto r ps variadic)")
    case None
    obtain hr c1 where r: "translate_type c r = (hr, c1)" by (cases "translate_type c r")
    obtain hs c2 where ps: "translate_types c1 ps = (hs, c2)" by (cases "translate_types c1 ps")
    from "5.IH"(1)[OF None r] have a: "cache_le c c1" .
    from "5.IH"(2)[OF None r[symmetric] ps] have b: "cache_le c1 c2" by simp
    from "5.prems" None r ps
    have "register_type c2 (FunctionProto r ps variadic) (TFunction hr hs variadic) = (h, c')"
      by simp
    from cache_le_register[OF cache_le_trans[OF a b] _ this None] show ?thesis by simp
  next
    case (Some a)
    with "5.prems" show ?thesis by (simp add: cache_le_refl)
  qed
next
  case (6 c d)
  then show ?case
    by (auto simp: cache_le_refl split: option.splits intro: cache_le_forward_tag)
next
  case (7 c d t)
  then show ?case
    by (auto simp: cache_le_refl split: option.splits prod.splits intro: cache_le_register)
next
  case (8 c)
  then show ?case by (simp add: cache_le_refl)
next
  case (9 c t ts)
  then show ?case
    by (auto split: prod.splits intro: cache_le_trans)
qed

text \<open>
  C2. Translating a type a second time returns the handle of the first time and leaves
  the whole context, the emitted declarations included, as it is; this still holds after
  other types have been translated in between.
\<close>

theorem translate_type_idempotent:
  "translate_type c ty = (h, c1) \<longrightarrow>
     translate_type c1 ty = (h, c1) \<and>
     (\<forall>ty2 h2 c2. translate_type c1 ty2 = (h2, c2) \<longrightarrow> translate_type c2 ty = (h, c2))"
proof (intro impI conjI allI)
  assume a: "translate_type c ty = (h, c1)"
  from translate_type_cached[OF a] show "translate_type c1 ty = (h, c1)"
    by (rule translate_type_hit)
  fix ty2 h2 c2
  assume b: "translate_type c1 ty2 = (h2, c2)"
  from translate_type_cache_le(1)[OF b] translate_type_cached[OF a]
  have "map_of (type_cache c2) ty = Some h" by (simp add: cache_le_def)
  then show "translate_type c2 ty = (h, c2)" by (rule translate_type_hit)
qed

theorem translate_type_idempotent_witness:
  "translate_type empty_context (Pointer (Tagged 7)) =
     (1, \<lparr>type_cache = [(Pointer (Tagged 7), 1), (Tagged 7, 0)], arena = [TTag 7, TPointer 0],
          cells = [], pending_forward_decls = [7], diagnostics = [], output_decls = [DTag 7]\<rparr>) \<and>
   translate_type
     \<lparr>type_cache = [(Pointer (Tagged 7), 1), (Tagged 7, 0)], arena = [TTag 7, TPointer 0],
      cells = [], pending_forward_decls = [7], diagnostics = [], output_decls = [DTag 7]\<rparr>
     (Pointer (Tagged 7)) =
     (1, \<lparr>type_cache = [(Pointer (Tagged 7), 1), (Tagged 7, 0)], arena = [TTag 7, TPointer 0],
          cells = [], pending_forward_decls = [7], diagnostics = [], output_decls = [DTag 7]\<rparr>)"
proof -
  have a: "translate_type empty_context (Pointer (Tagged 7)) =
     (1, \<lparr>type_cache = [(Pointer (Tagged 7), 1), (Tagged 7, 0)], arena = [TTag 7, TPointer 0],
          cells = [], pending_forward_decls = [7], diagnostics = [], output_decls = [DTag 7]\<rparr>)"
    by (simp add: empty_context_def forward_tag_def register_type_def)
  from translate_type_idempotent [of empty_context "Pointer (Tagged 7)"] a
  show ?thesis by blast
qed

section \<open>Macros: proofs\<close>







section \<open>Switch statements: proofs\<close>









section \<open>The orchestrator: proofs\<close>

subsection \<open>Steps of the registry\<close>










subsection \<open>Diagnostics and stubs of a body\<close>






subsection \<open>Units of functions\<close>











subsection \<open>Diagnostic isolation\<close>






subsection \<open>Tags and their cells\<close>






subsection \<open>One declaration at a time\<close>








subsection \<open>Whole units\<close>














end
